theory Spec2Isabelle
  imports Complex_Main
begin

section \<open>Data model (lib/types.ts)\<close>

text \<open>
  JavaScript numbers are idealised as reals: the functions below only store, compare, add
  and divide them, and the inputs of interest are finite. NaN and the infinities are not
  values of the model. A quotient is exact in the model and rounded to the nearest double
  in the code, so a property is stated of a quotient only where it does not depend on the
  rounding: which quotient is computed, how it compares with a constant, and its value
  where that value is a double.
\<close>

type_synonym number = real

text \<open>The DOM and platform objects the session refers to, reduced to the fields the code reads.\<close>

record HTMLImageElement =
  src :: string
  width :: number
  height :: number

record File =
  file_name :: string
  file_type :: string
  file_size :: nat

record Blob =
  blob_type :: string
  blob_size :: nat

text \<open>
  \<^verbatim>\<open>interface Transform { x; y; scale; rotation }\<close>. The fields \<^verbatim>\<open>x\<close> and \<^verbatim>\<open>y\<close> are written
  \<open>pos_x\<close> and \<open>pos_y\<close>, since a record field is a constant and would capture the variables
  of the same name.
\<close>

record Transform =
  pos_x :: number
  pos_y :: number
  scale :: number
  rotation :: number

text \<open>\<^verbatim>\<open>Partial<Transform>\<close>: every key may be absent.\<close>

record PartialTransform =
  x_opt :: "number option"
  y_opt :: "number option"
  scale_opt :: "number option"
  rotation_opt :: "number option"

subsection \<open>The fabric canvas\<close>

text \<open>
  The fabric library is not part of the repository. A canvas is modelled by the properties
  the repository reads and writes: its size, its background and the list of objects on it.
  A \<open>FabricImage\<close> carries the options \<^verbatim>\<open>composeImage\<close> passes to the constructor; the
  constructor's defaults are in \<open>new_FabricImage\<close> below.
\<close>

record FabricImage =
  element :: HTMLImageElement
  left :: number
  top :: number
  scaleX :: number
  scaleY :: number
  angle :: number
  selectable :: bool
  evented :: bool
  hasControls :: bool

record Canvas =
  canvas_width :: number
  canvas_height :: number
  canvas_backgroundColor :: string
  canvas_backgroundImage :: "FabricImage option"
  objects :: "FabricImage list"

subsection \<open>The session value and its actions\<close>

record EditorState =
  sourceImage :: "HTMLImageElement option"
  sourceFile :: "File option"
  processedImage :: "HTMLImageElement option"
  processedBlob :: "Blob option"
  backgroundColor :: "string option"
  backgroundImage :: "HTMLImageElement option"
  transform :: Transform
  isProcessing :: bool
  processingProgress :: number
  error :: "string option"
  canvasRef :: "Canvas option"

datatype EditorAction =
    SET_SOURCE_IMAGE HTMLImageElement File
  | SET_PROCESSED_IMAGE HTMLImageElement Blob
  | SET_BACKGROUND_COLOR string
  | SET_BACKGROUND_IMAGE HTMLImageElement
  | UPDATE_TRANSFORM PartialTransform
  | SET_PROCESSING bool
  | SET_PROGRESS number
  | SET_ERROR "string option"
  | RESET

section \<open>The session reducer (PhotoBackgroundEditor)\<close>

definition initialState :: EditorState where
  "initialState =
     \<lparr> sourceImage = None, sourceFile = None,
       processedImage = None, processedBlob = None,
       backgroundColor = None, backgroundImage = None,
       transform = \<lparr> pos_x = 0, pos_y = 0, scale = 1, rotation = 0 \<rparr>,
       isProcessing = False, processingProgress = 0,
       error = None, canvasRef = None \<rparr>"

text \<open>
  The object spread \<^verbatim>\<open>{ ...state.transform, ...action.payload }\<close>: a key present in the
  payload overwrites the field, an absent key leaves it.
\<close>

definition merge_transform :: "Transform \<Rightarrow> PartialTransform \<Rightarrow> Transform" where
  "merge_transform t p =
     \<lparr> pos_x = (case x_opt p of Some v \<Rightarrow> v | None \<Rightarrow> pos_x t),
       pos_y = (case y_opt p of Some v \<Rightarrow> v | None \<Rightarrow> pos_y t),
       scale = (case scale_opt p of Some v \<Rightarrow> v | None \<Rightarrow> scale t),
       rotation = (case rotation_opt p of Some v \<Rightarrow> v | None \<Rightarrow> rotation t) \<rparr>"

text \<open>
  \<^verbatim>\<open>editorReducer\<close>, one equation per \<^verbatim>\<open>case\<close> of the switch. The calls of
  \<^verbatim>\<open>revokeBlobUrl\<close> act on the browser's object-URL registry, not on the session value,
  and return nothing to the reducer; the returned state is what is modelled. The
  \<^verbatim>\<open>default\<close> branch is unreachable for a typed action.
\<close>

fun editorReducer :: "EditorState \<Rightarrow> EditorAction \<Rightarrow> EditorState" where
  "editorReducer state (SET_SOURCE_IMAGE img file) =
     state\<lparr> sourceImage := Some img, sourceFile := Some file, error := None \<rparr>"
| "editorReducer state (SET_PROCESSED_IMAGE img blob) =
     state\<lparr> processedImage := Some img, processedBlob := Some blob,
            isProcessing := False, processingProgress := 0, error := None \<rparr>"
| "editorReducer state (SET_BACKGROUND_COLOR payload) =
     state\<lparr> backgroundColor := Some payload, backgroundImage := None \<rparr>"
| "editorReducer state (SET_BACKGROUND_IMAGE payload) =
     state\<lparr> backgroundImage := Some payload, backgroundColor := None \<rparr>"
| "editorReducer state (UPDATE_TRANSFORM payload) =
     state\<lparr> transform := merge_transform (transform state) payload \<rparr>"
| "editorReducer state (SET_PROCESSING payload) =
     state\<lparr> isProcessing := payload,
            error := (if payload then None else error state) \<rparr>"
| "editorReducer state (SET_PROGRESS payload) =
     state\<lparr> processingProgress := payload \<rparr>"
| "editorReducer state (SET_ERROR payload) =
     state\<lparr> error := payload, isProcessing := False, processingProgress := 0 \<rparr>"
| "editorReducer state RESET =
     initialState\<lparr> sourceImage := sourceImage state, sourceFile := sourceFile state \<rparr>"

text \<open>\<^verbatim>\<open>dispatch\<close> applied to a sequence of actions, oldest first.\<close>

definition dispatch_all :: "EditorState \<Rightarrow> EditorAction list \<Rightarrow> EditorState" where
  "dispatch_all s acts = foldl editorReducer s acts"

text \<open>The progress the session shows after each of a sequence of progress reports.\<close>

fun observed_progress :: "EditorState \<Rightarrow> number list \<Rightarrow> number list" where
  "observed_progress s [] = []"
| "observed_progress s (p # ps) =
     (let s' = editorReducer s (SET_PROGRESS p)
      in processingProgress s' # observed_progress s' ps)"

text \<open>
  The states of the session have names in the design (Empty, SourceReady, Processing, ...);
  the session value carries no tag for them and they are read off its fields. A session is
  empty when it has no source. It is in the state SourceReady when it has a source image
  and a source file and nothing else: no processed result, no background, no processing
  under way and no error.
\<close>

definition is_Empty :: "EditorState \<Rightarrow> bool" where
  "is_Empty s = (sourceImage s = None \<and> sourceFile s = None)"

definition is_SourceReady :: "EditorState \<Rightarrow> bool" where
  "is_SourceReady s =
     (sourceImage s \<noteq> None \<and> sourceFile s \<noteq> None
      \<and> processedImage s = None \<and> processedBlob s = None
      \<and> backgroundColor s = None \<and> backgroundImage s = None
      \<and> \<not> isProcessing s \<and> error s = None)"

subsection \<open>What the event handlers dispatch\<close>

text \<open>
  Each handler of \<^verbatim>\<open>PhotoBackgroundEditorContent\<close> runs in pieces: the synchronous part, and
  the callbacks that fire later (\<^verbatim>\<open>img.onload\<close>, \<^verbatim>\<open>onProgress\<close>, the timer of the error
  notification). Every piece is the list of actions it dispatches; the pieces of different
  handlers interleave in the order in which the browser runs them.
\<close>

definition handleImageUpload_begin :: "EditorAction list" where
  "handleImageUpload_begin = [RESET]"

definition handleImageUpload_onload :: "HTMLImageElement \<Rightarrow> File \<Rightarrow> EditorAction list" where
  "handleImageUpload_onload img file = [SET_SOURCE_IMAGE img file]"

definition processRemoveBackground_begin :: "EditorState \<Rightarrow> EditorAction list" where
  "processRemoveBackground_begin state =
     (if sourceFile state = None then [SET_ERROR (Some ''Please upload an image first.'')]
      else [SET_PROCESSING True, SET_PROGRESS 0])"

definition processRemoveBackground_onProgress :: "number \<Rightarrow> EditorAction list" where
  "processRemoveBackground_onProgress progress = [SET_PROGRESS progress]"

definition processRemoveBackground_onload :: "HTMLImageElement \<Rightarrow> Blob \<Rightarrow> EditorAction list" where
  "processRemoveBackground_onload img blob = [SET_PROCESSED_IMAGE img blob]"

definition handleDismissError :: "EditorAction list" where
  "handleDismissError = [SET_ERROR None]"

section \<open>The processing client (lib/backgroundRemoval.ts)\<close>

text \<open>
  A thrown value is an \<^verbatim>\<open>Error\<close> with its message, or some other value
  (\<^verbatim>\<open>lastError instanceof Error\<close> tells them apart).
\<close>

datatype thrown = Error (message: string) | Not_an_Error

text \<open>
  \<^verbatim>\<open>class BackgroundRemovalError extends Error\<close>: the message, the wrapped cause
  (\<^verbatim>\<open>undefined\<close> is \<open>None\<close>) and the \<^verbatim>\<open>retryable\<close> flag.
\<close>

record BackgroundRemovalError =
  err_name :: string
  err_message :: string
  originalError :: "thrown option"
  retryable :: bool

definition new_BackgroundRemovalError ::
  "string \<Rightarrow> thrown option \<Rightarrow> bool \<Rightarrow> BackgroundRemovalError" where
  "new_BackgroundRemovalError msg cause r =
     \<lparr> err_name = ''BackgroundRemovalError'', err_message = msg,
       originalError = cause, retryable = r \<rparr>"

text \<open>
  The response of \<^verbatim>\<open>fetch\<close>. \<open>json\<close> is the outcome of reading the error payload:
  \<open>Inl\<close> when \<^verbatim>\<open>response.json()\<close> rejects or the payload has no properties to read,
  otherwise the payload's \<^verbatim>\<open>error\<close> field (\<open>None\<close> when absent). \<open>blob\<close> is the outcome
  of \<^verbatim>\<open>response.blob()\<close>.
\<close>

record Response =
  ok :: bool
  status :: int
  json :: "thrown + string option"
  blob :: "thrown + Blob"

text \<open>
  What the outside world does during one attempt: the random increments
  (\<^verbatim>\<open>Math.random() * 15\<close>) of the interval ticks that fire while the request is pending,
  and the outcome of \<^verbatim>\<open>fetch\<close>, a rejection or a response.
\<close>

record attempt_env =
  ticks :: "number list"
  fetched :: "thrown + Response"

text \<open>
  The observable trace of the client: calls of \<^verbatim>\<open>onProgress\<close>, calls of \<^verbatim>\<open>fetch\<close> and
  the waits \<^verbatim>\<open>setTimeout(resolve, delay)\<close> between attempts, in milliseconds.
\<close>

datatype event = Progress number | Fetch | Sleep int

text \<open>Template literals print an integer in decimal.\<close>

fun digits :: "nat \<Rightarrow> string" where
  "digits n =
     (if n < 10 then [''0123456789'' ! n]
      else digits (n div 10) @ [''0123456789'' ! (n mod 10)])"

definition string_of_int :: "int \<Rightarrow> string" where
  "string_of_int i = (if i < 0 then CHR ''-'' # digits (nat (- i)) else digits (nat i))"

text \<open>
  \<^verbatim>\<open>progressUpdater\<close>, called once per tick with the running \<^verbatim>\<open>currentProgress\<close>.
\<close>

fun progressUpdater :: "number \<Rightarrow> number list \<Rightarrow> event list" where
  "progressUpdater currentProgress [] = []"
| "progressUpdater currentProgress (r # rs) =
     (let currentProgress' = currentProgress + r
      in (if currentProgress' < 85 then [Progress (min currentProgress' 85)] else [])
         @ progressUpdater currentProgress' rs)"

text \<open>
  The body of the outer \<^verbatim>\<open>try\<close> for one attempt: the trace it leaves and either the
  value thrown into the outer \<^verbatim>\<open>catch\<close> or the blob returned. The callback
  \<^verbatim>\<open>onProgress\<close> is taken not to throw (the caller's one dispatches an action).
\<close>

definition run_attempt :: "attempt_env \<Rightarrow> event list \<times> (thrown + Blob)" where
  "run_attempt env =
     (let started = [Progress 5, Progress 15, Fetch] @ progressUpdater 15 (ticks env)
      in case fetched env of
           Inl e \<Rightarrow> (started, Inl e)
         | Inr response \<Rightarrow>
             if \<not> ok response then
               (case json response of
                  Inl e \<Rightarrow> (started, Inl e)
                | Inr payload \<Rightarrow>
                    (started,
                     Inl (Error (case payload of
                                   Some m \<Rightarrow>
                                     if m \<noteq> [] then m
                                     else ''HTTP error! status: '' @ string_of_int (status response)
                                 | None \<Rightarrow>
                                     ''HTTP error! status: '' @ string_of_int (status response)))))
             else
               (case blob response of
                  Inl e \<Rightarrow> (started @ [Progress 90], Inl e)
                | Inr b \<Rightarrow>
                    if blob_size b = 0 then
                      (started @ [Progress 90],
                       Inl (Error ''Background removal produced empty result''))
                    else (started @ [Progress 90, Progress 100], Inr b)))"

text \<open>\<^verbatim>\<open>Math.min(1000 * Math.pow(2, attempt - 1), 5000)\<close>; \<open>attempt\<close> is at least 1 here.\<close>

definition backoff_delay :: "int \<Rightarrow> int" where
  "backoff_delay attempt = min (1000 * 2 ^ nat (attempt - 1)) 5000"

text \<open>
  The \<^verbatim>\<open>while (attempt < maxRetries)\<close> loop. \<open>net k\<close> is what the outside world does
  during attempt \<open>k\<close>. The result is the trace, and the blob returned from inside the loop
  or \<^verbatim>\<open>lastError\<close> as the loop leaves it. \<^verbatim>\<open>maxRetries\<close> is an integer in the model.
\<close>

function retry_loop ::
  "(int \<Rightarrow> attempt_env) \<Rightarrow> int \<Rightarrow> int \<Rightarrow> thrown option \<Rightarrow> event list
     \<Rightarrow> event list \<times> (thrown option + Blob)" where
  "retry_loop net maxRetries attempt lastError trace =
     (if attempt < maxRetries then
        (case run_attempt (net (attempt + 1)) of
           (evs, Inr b) \<Rightarrow> (trace @ evs, Inr b)
         | (evs, Inl e) \<Rightarrow>
             if attempt + 1 \<ge> maxRetries then (trace @ evs, Inl (Some e))
             else retry_loop net maxRetries (attempt + 1) (Some e)
                    (trace @ evs @ [Sleep (backoff_delay (attempt + 1))]))
      else (trace, Inl lastError))"
  by pat_completeness auto
termination
  by (relation "measure (\<lambda>(net, maxRetries, attempt, lastError, trace). nat (maxRetries - attempt))")
     auto

declare retry_loop.simps [simp del]

record BackgroundRemovalOptions =
  maxRetries :: "int option"

text \<open>
  \<^verbatim>\<open>processBackgroundRemoval\<close>: \<open>Inl\<close> is the \<^verbatim>\<open>BackgroundRemovalError\<close> thrown after the
  loop, \<open>Inr\<close> the blob returned. The image file only travels in the request body.
\<close>

definition processBackgroundRemoval ::
  "File \<Rightarrow> BackgroundRemovalOptions \<Rightarrow> (int \<Rightarrow> attempt_env)
     \<Rightarrow> event list \<times> (BackgroundRemovalError + Blob)" where
  "processBackgroundRemoval imageFile options net =
     (let maxRetries = (case maxRetries options of Some n \<Rightarrow> n | None \<Rightarrow> 2)
      in case retry_loop net maxRetries 0 None [] of
           (trace, Inr b) \<Rightarrow> (trace, Inr b)
         | (trace, Inl lastError) \<Rightarrow>
             (let errorMessage =
                    (case lastError of
                       Some (Error m) \<Rightarrow> m
                     | _ \<Rightarrow> ''Unknown error occurred'')
              in (trace,
                  Inl (new_BackgroundRemovalError
                         (''Failed to remove background after '' @ string_of_int maxRetries
                            @ '' attempts: '' @ errorMessage)
                         lastError True))))"

text \<open>Reading a trace: how often the transport was called, and the waits in order.\<close>

fun fetch_count :: "event list \<Rightarrow> nat" where
  "fetch_count [] = 0"
| "fetch_count (Fetch # es) = Suc (fetch_count es)"
| "fetch_count (_ # es) = fetch_count es"

fun delays :: "event list \<Rightarrow> int list" where
  "delays [] = []"
| "delays (Sleep d # es) = d # delays es"
| "delays (_ # es) = delays es"

text \<open>
  The calls of the transport and the waits of a trace, in the order in which they happen:
  the trace without its progress reports.
\<close>

fun calls_and_waits :: "event list \<Rightarrow> event list" where
  "calls_and_waits [] = []"
| "calls_and_waits (Progress p # es) = calls_and_waits es"
| "calls_and_waits (e # es) = e # calls_and_waits es"

text \<open>Every attempt up to the budget ends in the outer \<^verbatim>\<open>catch\<close>.\<close>

definition all_attempts_fail :: "(int \<Rightarrow> attempt_env) \<Rightarrow> int \<Rightarrow> bool" where
  "all_attempts_fail net n = (\<forall>k \<in> {1..n}. isl (snd (run_attempt (net k))))"

section \<open>The composition engine (lib/imageProcessing.ts)\<close>

text \<open>
  \<^verbatim>\<open>getDefaultTransform\<close>; \<^verbatim>\<open>Math.min\<close> of three arguments. The two quotients are
  exact here and rounded in the code, so a product such as \<open>scale * imageWidth\<close> may
  come out above \<open>canvasWidth\<close> by one rounding step in the code where it is equal in the
  model; nothing is stated below about such products.
\<close>

definition getDefaultTransform :: "number \<Rightarrow> number \<Rightarrow> number \<Rightarrow> number \<Rightarrow> Transform" where
  "getDefaultTransform imageWidth imageHeight canvasWidth canvasHeight =
     (let scaleX = canvasWidth / imageWidth;
          scaleY = canvasHeight / imageHeight;
          scale = min (min scaleX scaleY) 1
      in \<lparr> pos_x = canvasWidth / 2, pos_y = canvasHeight / 2, scale = scale, rotation = 0 \<rparr>)"

text \<open>
  Modelled from the spec: the constructor \<^verbatim>\<open>new FabricImage(element, options)\<close> of the
  fabric library, which is not under src/; the spec says that the foreground is drawn "at
  the given offset/scale/rotation", so an option given by the caller is the property of the
  object. A property the caller does not give starts at the library's default.
\<close>

definition new_FabricImage :: "HTMLImageElement \<Rightarrow> FabricImage" where
  "new_FabricImage el =
     \<lparr> element = el, left = 0, top = 0, scaleX = 1, scaleY = 1, angle = 0,
       selectable = True, evented = True, hasControls = True \<rparr>"

text \<open>
  Where the centre of an object lies relative to its \<open>(left, top)\<close> depends on the origin
  convention of the fabric version, on the size of the element, on the scale and on the
  angle, and not on \<open>left\<close> and \<open>top\<close> themselves. The dependence is a parameter:
  \<open>off el sx sy a\<close> is the vector from \<open>(left, top)\<close> to the centre point.
\<close>

type_synonym centre_offset =
  "HTMLImageElement \<Rightarrow> number \<Rightarrow> number \<Rightarrow> number \<Rightarrow> number \<times> number"

definition getCenterPoint :: "centre_offset \<Rightarrow> FabricImage \<Rightarrow> number \<times> number" where
  "getCenterPoint off obj =
     (left obj + fst (off (element obj) (scaleX obj) (scaleY obj) (angle obj)),
      top obj + snd (off (element obj) (scaleX obj) (scaleY obj) (angle obj)))"

text \<open>
  Modelled from the spec: \<^verbatim>\<open>Canvas.clear\<close> of the fabric library, which is not under src/;
  the spec says that compose "clears the surface". The objects and the background go.
\<close>

definition Canvas_clear :: "Canvas \<Rightarrow> Canvas" where
  "Canvas_clear canvas =
     canvas\<lparr> objects := [], canvas_backgroundImage := None, canvas_backgroundColor := [] \<rparr>"

text \<open>
  Modelled from the spec: \<^verbatim>\<open>Canvas.add\<close> of the fabric library, which is not under src/;
  the spec says that compose "draws the foreground". The object goes on top of the others.
\<close>

definition Canvas_add :: "Canvas \<Rightarrow> FabricImage \<Rightarrow> Canvas" where
  "Canvas_add canvas obj = canvas\<lparr> objects := objects canvas @ [obj] \<rparr>"

text \<open>
  Modelled from the spec: \<^verbatim>\<open>Canvas.centerObject\<close> of the fabric library, which is not under
  src/; the spec says that compose "re-centers it on the surface every call". The object
  is named by its index on the canvas, since the call mutates the object the canvas holds:
  its centre point moves to the centre of the canvas, its other properties stay.
\<close>

definition centerObject :: "centre_offset \<Rightarrow> Canvas \<Rightarrow> nat \<Rightarrow> Canvas" where
  "centerObject off canvas i =
     (if i < length (objects canvas) then
        (let obj = objects canvas ! i;
             d = off (element obj) (scaleX obj) (scaleY obj) (angle obj)
         in canvas\<lparr> objects :=
              (objects canvas)[i := obj\<lparr> left := canvas_width canvas / 2 - fst d,
                                         top := canvas_height canvas / 2 - snd d \<rparr>] \<rparr>)
      else canvas)"

text \<open>The \<^verbatim>\<open>background\<close> argument \<^verbatim>\<open>{ type: 'color' | 'image'; value }\<close>.\<close>

datatype Background = Color string | Image HTMLImageElement

text \<open>
  \<^verbatim>\<open>composeImage\<close>. The canvas is mutated in place in the source and returned here;
  \<^verbatim>\<open>renderAll\<close> paints and changes none of the modelled properties.
\<close>

definition composeImage ::
  "centre_offset \<Rightarrow> Canvas \<Rightarrow> HTMLImageElement \<Rightarrow> Background \<Rightarrow> Transform \<Rightarrow> Canvas" where
  "composeImage off canvas foreground background tf =
     (let c1 = Canvas_clear canvas;
          c2 = (case background of
                  Color v \<Rightarrow> c1\<lparr> canvas_backgroundColor := v \<rparr>
                | Image bgImg \<Rightarrow>
                    c1\<lparr> canvas_backgroundImage :=
                          Some ((new_FabricImage bgImg)
                                  \<lparr> scaleX := canvas_width c1 / width bgImg,
                                    scaleY := canvas_height c1 / height bgImg,
                                    selectable := False, evented := False \<rparr>) \<rparr>);
          fgImage = (new_FabricImage foreground)
                      \<lparr> left := pos_x tf, top := pos_y tf,
                        scaleX := scale tf, scaleY := scale tf,
                        angle := rotation tf,
                        selectable := True, hasControls := True \<rparr>;
          c3 = Canvas_add c2 fgImage
      in centerObject off c3 (length (objects c3) - 1))"

text \<open>The foreground is the object \<^verbatim>\<open>composeImage\<close> added last.\<close>

definition foreground_of :: "Canvas \<Rightarrow> FabricImage" where
  "foreground_of canvas = last (objects canvas)"

section \<open>Reading results and concrete scenarios\<close>

text \<open>The value an attempt throws into the outer \<^verbatim>\<open>catch\<close>, if it throws.\<close>

definition attempt_error :: "attempt_env \<Rightarrow> thrown option" where
  "attempt_error env = (case snd (run_attempt env) of Inl e \<Rightarrow> Some e | Inr b \<Rightarrow> None)"

text \<open>The values passed to \<^verbatim>\<open>onProgress\<close>, in order.\<close>

fun progress_reports :: "event list \<Rightarrow> number list" where
  "progress_reports [] = []"
| "progress_reports (Progress p # es) = p # progress_reports es"
| "progress_reports (_ # es) = progress_reports es"

definition example_image :: "string \<Rightarrow> HTMLImageElement" where
  "example_image url = \<lparr> src = url, width = 640, height = 480 \<rparr>"

definition example_file :: "string \<Rightarrow> File" where
  "example_file n = \<lparr> file_name = n, file_type = ''image/png'', file_size = 1024 \<rparr>"

definition example_blob :: Blob where
  "example_blob = \<lparr> blob_type = ''image/png'', blob_size = 2048 \<rparr>"

text \<open>
  A transport that fails twice: the first request is rejected after two interval ticks,
  the second is answered with status 500 and the error payload of the API route.
\<close>

definition failing_net :: "int \<Rightarrow> attempt_env" where
  "failing_net k =
     (if k = 1 then \<lparr> ticks = [10, 12], fetched = Inl (Error ''Failed to fetch'') \<rparr>
      else \<lparr> ticks = [],
             fetched = Inr \<lparr> ok = False, status = 500,
                             json = Inr (Some ''Failed to process image''),
                             blob = Inr example_blob \<rparr> \<rparr>)"

text \<open>
  Image a is uploaded and its background removal is started; before the result arrives
  image b is uploaded; then the result for image a finishes loading.
\<close>

definition stale_result_scenario :: EditorState where
  "stale_result_scenario =
     (let s1 = dispatch_all initialState
                 (handleImageUpload_begin
                  @ handleImageUpload_onload (example_image ''blob:a'') (example_file ''a.png''));
          s2 = dispatch_all s1 (processRemoveBackground_begin s1);
          s3 = dispatch_all s2
                 (handleImageUpload_begin
                  @ handleImageUpload_onload (example_image ''blob:b'') (example_file ''b.png''))
      in dispatch_all s3
           (processRemoveBackground_onload (example_image ''blob:a-cutout'') example_blob))"

text \<open>
  Image a is uploaded and a first removal has failed, so an error is shown. The close
  button of the notification is clicked, which calls \<^verbatim>\<open>onDismiss\<close> 300 ms later; before
  that a new removal starts and the client reports the progress 5 and 15. The state is the
  one the dismissal then meets.
\<close>

definition dismiss_while_processing :: EditorState where
  "dismiss_while_processing =
     (let s1 = dispatch_all initialState
                 (handleImageUpload_begin
                  @ handleImageUpload_onload (example_image ''blob:a'') (example_file ''a.png''));
          s2 = dispatch_all s1 [SET_ERROR (Some ''Failed to remove background. Please try again.'')]
      in dispatch_all s2
           (processRemoveBackground_begin s2
            @ processRemoveBackground_onProgress 5
            @ processRemoveBackground_onProgress 15))"

section \<open>Properties of the reducer\<close>

lemma dispatch_all_invariant:
  assumes step: "\<And>s a. P s \<Longrightarrow> P (editorReducer s a)" and init: "P s0"
  shows "P (dispatch_all s0 acts)"
  unfolding dispatch_all_def using init
proof (induction acts arbitrary: s0)
  case Nil
  then show ?case by simp
next
  case (Cons a acts)
  then show ?case using step by simp
qed

lemma observed_progress_raw: "observed_progress s ps = ps"
  by (induction ps arbitrary: s) (simp_all add: Let_def)

subsection \<open>Progress\<close>

text \<open>
  C1, as stated, fails. The claim is that a progress tick \<open>p\<close> on a processing state with
  progress \<open>p0\<close> shows \<open>max p0 p\<close>, so that the ticks 30, 20, 50 show as 30, 30, 50. The
  \<open>SET_PROGRESS\<close> case stores the payload as it is: on a processing state the ticks
  30, 20, 50 do not show as 30, 30, 50.
\<close>

theorem progress_not_clamped_counterexample:
  "observed_progress (editorReducer initialState (SET_PROCESSING True)) [30, 20, 50]
     \<noteq> [30, 30, 50]"
  by (simp add: Let_def)

text \<open>
  C1, amended. A progress tick \<open>p\<close> shows \<open>p\<close>, the raw value; that is \<open>max p0 p\<close> exactly
  when the tick does not go below the current progress \<open>p0\<close>. A sequence of ticks shows
  unchanged, and the ticks 30, 20, 50 show as 30, 20, 50.
\<close>

theorem progress_tick_stores_raw_value:
  "processingProgress (editorReducer s (SET_PROGRESS p)) = p
   \<and> (processingProgress (editorReducer s (SET_PROGRESS p)) = max (processingProgress s) p
        \<longleftrightarrow> processingProgress s \<le> p)
   \<and> observed_progress s ps = ps
   \<and> observed_progress s [30, 20, 50] = [30, 20, 50]"
  by (auto simp add: observed_progress_raw max_def)

subsection \<open>Results that arrive late\<close>

text \<open>
  C2, as stated, fails. The claim is that a removal result which arrives after a newer
  upload is discarded and never reaches the processed-image slot. The session has no
  generation counter and \<open>SET_PROCESSED_IMAGE\<close> has no guard: in the scenario the source
  is image b and the processed image is the cutout of image a.
\<close>

theorem stale_result_counterexample:
  "sourceImage stale_result_scenario = Some (example_image ''blob:b'')
   \<and> processedImage stale_result_scenario = Some (example_image ''blob:a-cutout'')"
  by (simp add: stale_result_scenario_def dispatch_all_def handleImageUpload_begin_def
      handleImageUpload_onload_def processRemoveBackground_begin_def
      processRemoveBackground_onload_def initialState_def Let_def)

text \<open>
  C2, amended. When a removal is started, a new source is then uploaded, and the result of
  the removal finishes loading afterwards, the result is applied: the processed image and
  the processed blob are those of the late result, while the source image and the source
  file are those of the new upload.
\<close>

theorem late_result_is_applied:
  "(let s1 = dispatch_all s0 (processRemoveBackground_begin s0);
        s2 = dispatch_all s1 (handleImageUpload_begin @ handleImageUpload_onload imgB fileB);
        s3 = dispatch_all s2 (processRemoveBackground_onload img b)
    in processedImage s3 = Some img \<and> processedBlob s3 = Some b
       \<and> sourceImage s3 = Some imgB \<and> sourceFile s3 = Some fileB)"
  by (simp add: dispatch_all_def handleImageUpload_begin_def
      handleImageUpload_onload_def processRemoveBackground_begin_def
      processRemoveBackground_onload_def initialState_def Let_def)

subsection \<open>Dismissing an error\<close>

text \<open>
  C4, as stated, fails. The claim is that dismissing the error leaves every field other
  than the error unchanged, \<open>isProcessing\<close> and \<open>processingProgress\<close> included. The
  dismissal dispatches \<open>SET_ERROR\<close> with \<^verbatim>\<open>null\<close>, and that case also writes the two
  processing fields: met by a session that is processing at progress 15, it stops the
  processing display and sets the progress to 0.
\<close>

theorem dismissal_frame_counterexample:
  "isProcessing dismiss_while_processing = True
   \<and> processingProgress dismiss_while_processing = 15
   \<and> isProcessing (dispatch_all dismiss_while_processing handleDismissError) = False
   \<and> processingProgress (dispatch_all dismiss_while_processing handleDismissError) = 0"
  by (simp add: dismiss_while_processing_def dispatch_all_def handleDismissError_def
      handleImageUpload_begin_def handleImageUpload_onload_def
      processRemoveBackground_begin_def processRemoveBackground_onProgress_def
      initialState_def Let_def)

text \<open>
  C4, amended. Dismissing the error clears the error field and sets \<open>isProcessing\<close> to
  false and \<open>processingProgress\<close> to 0; every other field is unchanged. So on a session that
  is not processing and whose progress is 0, only the error field changes.
\<close>

theorem dismissal_resets_processing:
  "error (dispatch_all s handleDismissError) = None
   \<and> isProcessing (dispatch_all s handleDismissError) = False
   \<and> processingProgress (dispatch_all s handleDismissError) = 0
   \<and> sourceImage (dispatch_all s handleDismissError) = sourceImage s
   \<and> sourceFile (dispatch_all s handleDismissError) = sourceFile s
   \<and> processedImage (dispatch_all s handleDismissError) = processedImage s
   \<and> processedBlob (dispatch_all s handleDismissError) = processedBlob s
   \<and> backgroundColor (dispatch_all s handleDismissError) = backgroundColor s
   \<and> backgroundImage (dispatch_all s handleDismissError) = backgroundImage s
   \<and> transform (dispatch_all s handleDismissError) = transform s
   \<and> canvasRef (dispatch_all s handleDismissError) = canvasRef s
   \<and> (\<not> isProcessing s \<and> processingProgress s = 0
        \<longrightarrow> dispatch_all s handleDismissError = s\<lparr> error := None \<rparr>)"
  by (simp add: dispatch_all_def handleDismissError_def)

theorem dismissal_resets_processing_witness:
  "\<not> isProcessing (editorReducer initialState (SET_ERROR (Some ''Please upload an image first.'')))
   \<and> processingProgress
         (editorReducer initialState (SET_ERROR (Some ''Please upload an image first.''))) = 0
   \<and> dispatch_all
         (editorReducer initialState (SET_ERROR (Some ''Please upload an image first.'')))
         handleDismissError
       = initialState"
  using dismissal_resets_processing
          [of "editorReducer initialState (SET_ERROR (Some ''Please upload an image first.''))"]
  by (simp add: initialState_def)

subsection \<open>Reset\<close>

text \<open>
  C5, as stated, fails. The claim is that \<open>RESET\<close> applied to any session state gives a
  SourceReady state. \<open>RESET\<close> keeps the source fields as they are, so on the empty session,
  which is the state the first upload dispatches \<open>RESET\<close> on, the result is the empty
  session again and not a SourceReady state.
\<close>

theorem reset_empty_session_counterexample:
  "dispatch_all initialState handleImageUpload_begin = initialState
   \<and> is_Empty (editorReducer initialState RESET)
   \<and> \<not> is_SourceReady (editorReducer initialState RESET)"
  by (simp add: dispatch_all_def handleImageUpload_begin_def is_Empty_def is_SourceReady_def
      initialState_def)

text \<open>
  C5, amended. Reset is idempotent: a second \<open>RESET\<close> changes nothing, and the state after a
  \<open>RESET\<close> keeps the source image and the source file and has every other field at its
  initial value. That state is SourceReady exactly when the session had a source image and
  a source file before the \<open>RESET\<close>.
\<close>

theorem reset_idempotent:
  "editorReducer (editorReducer s RESET) RESET = editorReducer s RESET
   \<and> sourceImage (editorReducer s RESET) = sourceImage s
   \<and> sourceFile (editorReducer s RESET) = sourceFile s
   \<and> processedImage (editorReducer s RESET) = None
   \<and> processedBlob (editorReducer s RESET) = None
   \<and> backgroundColor (editorReducer s RESET) = None
   \<and> backgroundImage (editorReducer s RESET) = None
   \<and> transform (editorReducer s RESET) = \<lparr> pos_x = 0, pos_y = 0, scale = 1, rotation = 0 \<rparr>
   \<and> isProcessing (editorReducer s RESET) = False
   \<and> processingProgress (editorReducer s RESET) = 0
   \<and> error (editorReducer s RESET) = None
   \<and> canvasRef (editorReducer s RESET) = None
   \<and> (is_SourceReady (editorReducer s RESET)
        \<longleftrightarrow> sourceImage s \<noteq> None \<and> sourceFile s \<noteq> None)"
  by (simp add: initialState_def is_SourceReady_def)

subsection \<open>Background\<close>

lemma background_exclusive_step:
  "backgroundColor s = None \<or> backgroundImage s = None \<Longrightarrow>
   backgroundColor (editorReducer s a) = None \<or> backgroundImage (editorReducer s a) = None"
  by (cases a) (auto simp: initialState_def)

text \<open>
  C6. Setting a background colour clears the background image, setting a background image
  clears the background colour, and in every state reached from the initial state by a
  sequence of actions at most one of the two is set.
\<close>

theorem background_exclusive:
  "backgroundColor (editorReducer s (SET_BACKGROUND_COLOR c)) = Some c
   \<and> backgroundImage (editorReducer s (SET_BACKGROUND_COLOR c)) = None
   \<and> backgroundImage (editorReducer s (SET_BACKGROUND_IMAGE i)) = Some i
   \<and> backgroundColor (editorReducer s (SET_BACKGROUND_IMAGE i)) = None
   \<and> (backgroundColor (dispatch_all initialState acts) = None
        \<or> backgroundImage (dispatch_all initialState acts) = None)"
proof -
  have "backgroundColor (dispatch_all initialState acts) = None
        \<or> backgroundImage (dispatch_all initialState acts) = None"
    by (rule dispatch_all_invariant
          [where P = "\<lambda>s. backgroundColor s = None \<or> backgroundImage s = None"])
       (simp_all add: background_exclusive_step initialState_def)
  then show ?thesis by simp
qed

subsection \<open>Processing and errors\<close>

lemma processing_no_error_step:
  "(isProcessing s \<longrightarrow> error s = None) \<Longrightarrow>
   (isProcessing (editorReducer s a) \<longrightarrow> error (editorReducer s a) = None)"
  by (cases a) (auto simp: initialState_def)

text \<open>
  C10. In every state reached from the initial state by a sequence of actions, a session
  that is processing has no error. Starting the processing clears the error, and an action
  that records a new error leaves the session not processing.
\<close>

theorem processing_implies_no_error:
  "(isProcessing (dispatch_all initialState acts)
      \<longrightarrow> error (dispatch_all initialState acts) = None)
   \<and> isProcessing (editorReducer s (SET_PROCESSING True)) = True
   \<and> error (editorReducer s (SET_PROCESSING True)) = None
   \<and> (error (editorReducer s a) \<noteq> None \<and> error (editorReducer s a) \<noteq> error s
        \<longrightarrow> isProcessing (editorReducer s a) = False)"
proof -
  have inv: "isProcessing (dispatch_all initialState acts)
               \<longrightarrow> error (dispatch_all initialState acts) = None"
    by (rule dispatch_all_invariant [where P = "\<lambda>s. isProcessing s \<longrightarrow> error s = None"])
       (simp_all add: processing_no_error_step initialState_def)
  have rec: "error (editorReducer s a) \<noteq> None \<and> error (editorReducer s a) \<noteq> error s
        \<longrightarrow> isProcessing (editorReducer s a) = False"
    by (cases a) (auto simp: initialState_def)
  show ?thesis using inv rec by simp
qed

theorem processing_implies_no_error_witness:
  "isProcessing (dispatch_all initialState
       [SET_ERROR (Some ''Please upload an image first.''), SET_PROCESSING True])
   \<and> error (dispatch_all initialState
       [SET_ERROR (Some ''Please upload an image first.''), SET_PROCESSING True]) = None
   \<and> error (editorReducer initialState (SET_ERROR (Some ''Please upload an image first.'')))
       \<noteq> None
   \<and> isProcessing
        (editorReducer initialState (SET_ERROR (Some ''Please upload an image first.'')))
       = False"
  using processing_implies_no_error
          [of "[SET_ERROR (Some ''Please upload an image first.''), SET_PROCESSING True]"
              initialState "SET_ERROR (Some ''Please upload an image first.'')"]
  by (simp add: dispatch_all_def initialState_def)

section \<open>Properties of the processing client\<close>

lemma fetch_count_append: "fetch_count (xs @ ys) = fetch_count xs + fetch_count ys"
  by (induction xs rule: fetch_count.induct) simp_all

lemma delays_append: "delays (xs @ ys) = delays xs @ delays ys"
  by (induction xs rule: delays.induct) simp_all

lemma progressUpdater_quiet:
  "fetch_count (progressUpdater c rs) = 0 \<and> delays (progressUpdater c rs) = []"
  by (induction rs arbitrary: c) (simp_all add: Let_def fetch_count_append delays_append)

lemma run_attempt_trace:
  "fetch_count (fst (run_attempt env)) = 1 \<and> delays (fst (run_attempt env)) = []"
  by (simp add: run_attempt_def Let_def fetch_count_append delays_append progressUpdater_quiet
      split: sum.splits option.splits)

lemma backoff_delay_bounds: "1 \<le> k \<Longrightarrow> 1000 \<le> backoff_delay k \<and> backoff_delay k \<le> 5000"
  by (simp add: backoff_delay_def)

lemma retry_loop_all_fail:
  "\<forall>k \<in> {attempt + 1..m}. isl (snd (run_attempt (net k))) \<Longrightarrow>
   fetch_count (fst (retry_loop net m attempt lastError trace))
     = fetch_count trace + nat (m - attempt)
   \<and> delays (fst (retry_loop net m attempt lastError trace))
     = delays trace @ map backoff_delay [attempt + 1..m - 1]
   \<and> snd (retry_loop net m attempt lastError trace)
     = Inl (if attempt < m then attempt_error (net m) else lastError)"
proof (induction net m attempt lastError trace rule: retry_loop.induct)
  case (1 net m attempt lastError trace)
  show ?case
  proof (cases "attempt < m")
    case False
    then show ?thesis by (simp add: retry_loop.simps)
  next
    case True
    from True "1.prems" have fails: "isl (snd (run_attempt (net (attempt + 1))))"
      by simp
    then obtain evs e where ra: "run_attempt (net (attempt + 1)) = (evs, Inl e)"
      by (cases "run_attempt (net (attempt + 1))") (auto simp: isl_def)
    have tr: "fetch_count evs = 1" "delays evs = []"
      using run_attempt_trace [of "net (attempt + 1)"] ra by simp_all
    show ?thesis
    proof (cases "attempt + 1 \<ge> m")
      case True
      with \<open>attempt < m\<close> have m: "m = attempt + 1" by simp
      have "retry_loop net m attempt lastError trace = (trace @ evs, Inl (Some e))"
        using ra m by (subst retry_loop.simps) simp
      then show ?thesis
        using tr ra m by (simp add: fetch_count_append delays_append attempt_error_def)
    next
      case False
      have rest: "\<forall>k \<in> {attempt + 1 + 1..m}. isl (snd (run_attempt (net k)))"
        using "1.prems" by simp
      have step: "retry_loop net m attempt lastError trace =
          retry_loop net m (attempt + 1) (Some e)
            (trace @ evs @ [Sleep (backoff_delay (attempt + 1))])"
        using ra False \<open>attempt < m\<close> by (subst retry_loop.simps) simp
      have up: "[attempt + 1..m - 1] = (attempt + 1) # [attempt + 1 + 1..m - 1]"
        using False by (subst upto.simps) simp
      have n: "nat (m - attempt) = Suc (nat (m - (attempt + 1)))"
        using False by simp
      from "1.IH" [OF \<open>attempt < m\<close> ra [symmetric] refl False rest]
      show ?thesis
        unfolding step using False tr up n
        by (simp add: fetch_count_append delays_append)
    qed
  qed
qed


lemma calls_and_waits_append:
  "calls_and_waits (xs @ ys) = calls_and_waits xs @ calls_and_waits ys"
  by (induction xs rule: calls_and_waits.induct) simp_all

lemma progressUpdater_silent: "calls_and_waits (progressUpdater c rs) = []"
  by (induction rs arbitrary: c) (simp_all add: Let_def calls_and_waits_append)

lemma run_attempt_calls: "calls_and_waits (fst (run_attempt env)) = [Fetch]"
  by (simp add: run_attempt_def Let_def calls_and_waits_append progressUpdater_silent
      split: sum.splits option.splits)

lemma retry_loop_schedule:
  "\<forall>k \<in> {attempt + 1..m}. isl (snd (run_attempt (net k))) \<Longrightarrow>
   calls_and_waits (fst (retry_loop net m attempt lastError trace))
     = calls_and_waits trace
       @ concat (map (\<lambda>k. if k < m then [Fetch, Sleep (backoff_delay k)] else [Fetch])
                   [attempt + 1..m])"
proof (induction net m attempt lastError trace rule: retry_loop.induct)
  case (1 net m attempt lastError trace)
  show ?case
  proof (cases "attempt < m")
    case False
    then show ?thesis by (simp add: retry_loop.simps)
  next
    case True
    from True "1.prems" have fails: "isl (snd (run_attempt (net (attempt + 1))))"
      by simp
    then obtain evs e where ra: "run_attempt (net (attempt + 1)) = (evs, Inl e)"
      by (cases "run_attempt (net (attempt + 1))") (auto simp: isl_def)
    have tr: "calls_and_waits evs = [Fetch]"
      using run_attempt_calls [of "net (attempt + 1)"] ra by simp
    show ?thesis
    proof (cases "attempt + 1 \<ge> m")
      case True
      with \<open>attempt < m\<close> have m: "m = attempt + 1" by simp
      have "retry_loop net m attempt lastError trace = (trace @ evs, Inl (Some e))"
        using ra m by (subst retry_loop.simps) simp
      then show ?thesis
        using tr m by (simp add: calls_and_waits_append)
    next
      case False
      have rest: "\<forall>k \<in> {attempt + 1 + 1..m}. isl (snd (run_attempt (net k)))"
        using "1.prems" by simp
      have step: "retry_loop net m attempt lastError trace =
          retry_loop net m (attempt + 1) (Some e)
            (trace @ evs @ [Sleep (backoff_delay (attempt + 1))])"
        using ra False \<open>attempt < m\<close> by (subst retry_loop.simps) simp
      have up: "[attempt + 1..m] = (attempt + 1) # [attempt + 1 + 1..m]"
        using False by (subst upto.simps) simp
      from "1.IH" [OF \<open>attempt < m\<close> ra [symmetric] refl False rest]
      show ?thesis
        unfolding step using False tr up
        by (simp add: calls_and_waits_append)
    qed
  qed
qed

lemma all_fail_from:
  "all_attempts_fail net n \<Longrightarrow> \<forall>k \<in> {0 + 1..n}. isl (snd (run_attempt (net k)))"
  by (simp add: all_attempts_fail_def)

lemma all_fail_last: "all_attempts_fail net n \<Longrightarrow> 1 \<le> n \<Longrightarrow> attempt_error (net n) \<noteq> None"
proof -
  assume a: "all_attempts_fail net n" and n: "1 \<le> n"
  from n have "n \<in> {1..n}" by simp
  with a have "isl (snd (run_attempt (net n)))"
    unfolding all_attempts_fail_def by blast
  then show ?thesis
    by (auto simp: attempt_error_def isl_def)
qed

lemma processBackgroundRemoval_trace:
  "fst (processBackgroundRemoval f \<lparr> maxRetries = Some n \<rparr> net) = fst (retry_loop net n 0 None [])"
  by (simp add: processBackgroundRemoval_def Let_def split: prod.splits sum.splits)

lemma progress_regresses_on_retry:
  "progress_reports (fst (processBackgroundRemoval (example_file ''a.png'')
                            \<lparr> maxRetries = Some 2 \<rparr> failing_net))
     = [5, 15, 25, 37, 5, 15]"
  by (simp add: processBackgroundRemoval_def retry_loop.simps failing_net_def run_attempt_def
      Let_def)

text \<open>
  C3. When every attempt fails, a client configured with \<open>maxRetries = n\<close> calls the
  transport \<open>n\<close> times, and after each failed attempt but the last, before the next call,
  it waits \<open>min (1000 * 2 ^ (attempt - 1)) 5000\<close> milliseconds: the calls and waits of the
  trace are call, wait, call, wait, ..., call. Every wait is at least 1000 and at most
  5000. With \<open>maxRetries = 2\<close> the trace is a call, a wait of 1000 and a second call.
\<close>

theorem retry_budget_and_backoff:
  assumes "all_attempts_fail net n"
  shows "fetch_count (fst (processBackgroundRemoval f \<lparr> maxRetries = Some n \<rparr> net)) = nat n
   \<and> calls_and_waits (fst (processBackgroundRemoval f \<lparr> maxRetries = Some n \<rparr> net))
       = concat (map (\<lambda>attempt.
                        if attempt < n
                        then [Fetch, Sleep (min (1000 * 2 ^ nat (attempt - 1)) 5000)]
                        else [Fetch])
                   [1..n])
   \<and> delays (fst (processBackgroundRemoval f \<lparr> maxRetries = Some n \<rparr> net))
       = map (\<lambda>attempt. min (1000 * 2 ^ nat (attempt - 1)) 5000) [1..n - 1]
   \<and> (\<forall>d \<in> set (delays (fst (processBackgroundRemoval f \<lparr> maxRetries = Some n \<rparr> net))).
         1000 \<le> d \<and> d \<le> 5000)
   \<and> (n = 2 \<longrightarrow>
         fetch_count (fst (processBackgroundRemoval f \<lparr> maxRetries = Some n \<rparr> net)) = 2
         \<and> calls_and_waits (fst (processBackgroundRemoval f \<lparr> maxRetries = Some n \<rparr> net))
             = [Fetch, Sleep 1000, Fetch]
         \<and> delays (fst (processBackgroundRemoval f \<lparr> maxRetries = Some n \<rparr> net)) = [1000])"
proof -
  let ?tr = "fst (processBackgroundRemoval f \<lparr> maxRetries = Some n \<rparr> net)"
  note loop = retry_loop_all_fail [OF all_fail_from [OF assms], of None "[]"]
  note sched = retry_loop_schedule [OF all_fail_from [OF assms], of None "[]"]
  have count: "fetch_count ?tr = nat n"
    using loop by (simp add: processBackgroundRemoval_trace)
  have ds: "delays ?tr = map backoff_delay [1..n - 1]"
    using loop by (simp add: processBackgroundRemoval_trace)
  have cw: "calls_and_waits ?tr
      = concat (map (\<lambda>k. if k < n then [Fetch, Sleep (backoff_delay k)] else [Fetch]) [1..n])"
    using sched by (simp add: processBackgroundRemoval_trace)
  have fun_eq: "backoff_delay = (\<lambda>attempt. min (1000 * 2 ^ nat (attempt - 1)) 5000)"
    by (rule ext) (simp add: backoff_delay_def)
  have bounds: "\<forall>d \<in> set (delays ?tr). 1000 \<le> d \<and> d \<le> 5000"
    unfolding ds using backoff_delay_bounds by auto
  have two: "n = 2 \<longrightarrow> fetch_count ?tr = 2 \<and> delays ?tr = [1000]"
    using count ds by (auto simp: backoff_delay_def)
  have two_cw: "n = 2 \<longrightarrow> calls_and_waits ?tr = [Fetch, Sleep 1000, Fetch]"
    unfolding cw by (simp add: upto.simps backoff_delay_def)
  show ?thesis
    using count ds cw bounds two two_cw unfolding fun_eq by simp
qed

theorem retry_budget_and_backoff_witness:
  "all_attempts_fail failing_net 2
   \<and> fetch_count (fst (processBackgroundRemoval (example_file ''a.png'')
                          \<lparr> maxRetries = Some 2 \<rparr> failing_net)) = 2
   \<and> calls_and_waits (fst (processBackgroundRemoval (example_file ''a.png'')
                              \<lparr> maxRetries = Some 2 \<rparr> failing_net))
       = [Fetch, Sleep 1000, Fetch]
   \<and> delays (fst (processBackgroundRemoval (example_file ''a.png'')
                     \<lparr> maxRetries = Some 2 \<rparr> failing_net)) = [1000]"
proof -
  have h: "all_attempts_fail failing_net 2"
    by (simp add: all_attempts_fail_def failing_net_def run_attempt_def Let_def)
  show ?thesis
    using h retry_budget_and_backoff [OF h, of "example_file ''a.png''"]
    by (simp add: upto.simps)
qed

text \<open>
  C8. When every attempt fails, the client ends by throwing a
  \<^verbatim>\<open>BackgroundRemovalError\<close>: it returns no blob, the error wraps the value thrown by the
  last attempt, its message quotes that value's message, and \<open>retryable\<close> is true. With a
  budget below 1 no attempt is made and there is no cause to wrap.
\<close>

theorem exhaustion_failure:
  assumes "all_attempts_fail net n"
  shows "snd (processBackgroundRemoval f \<lparr> maxRetries = Some n \<rparr> net)
     = Inl \<lparr> err_name = ''BackgroundRemovalError'',
             err_message = ''Failed to remove background after '' @ string_of_int n
                @ '' attempts: ''
                @ (case (if 1 \<le> n then attempt_error (net n) else None) of
                     Some (Error msg) \<Rightarrow> msg
                   | _ \<Rightarrow> ''Unknown error occurred''),
             originalError = (if 1 \<le> n then attempt_error (net n) else None),
             retryable = True \<rparr>
   \<and> (1 \<le> n \<longrightarrow> attempt_error (net n) \<noteq> None)"
proof -
  note loop = retry_loop_all_fail [OF all_fail_from [OF assms], of None "[]"]
  then have s: "snd (retry_loop net n 0 None []) = Inl (if 1 \<le> n then attempt_error (net n) else None)"
    by (auto simp: not_less)
  obtain tr where r: "retry_loop net n 0 None [] = (tr, Inl (if 1 \<le> n then attempt_error (net n) else None))"
    using s by (cases "retry_loop net n 0 None []") simp
  have "snd (processBackgroundRemoval f \<lparr> maxRetries = Some n \<rparr> net)
     = Inl (new_BackgroundRemovalError
             (''Failed to remove background after '' @ string_of_int n @ '' attempts: ''
                @ (case (if 1 \<le> n then attempt_error (net n) else None) of
                     Some (Error msg) \<Rightarrow> msg
                   | _ \<Rightarrow> ''Unknown error occurred''))
             (if 1 \<le> n then attempt_error (net n) else None) True)"
    unfolding processBackgroundRemoval_def using r by (simp add: Let_def)
  then show ?thesis
    using all_fail_last [OF assms] by (simp add: new_BackgroundRemovalError_def)
qed

theorem exhaustion_failure_witness:
  "all_attempts_fail failing_net 2
   \<and> snd (processBackgroundRemoval (example_file ''a.png'') \<lparr> maxRetries = Some 2 \<rparr> failing_net)
     = Inl \<lparr> err_name = ''BackgroundRemovalError'',
             err_message = ''Failed to remove background after 2 attempts: Failed to process image'',
             originalError = Some (Error ''Failed to process image''),
             retryable = True \<rparr>"
proof -
  have h: "all_attempts_fail failing_net 2"
    by (simp add: all_attempts_fail_def failing_net_def run_attempt_def Let_def)
  have e: "attempt_error (failing_net 2) = Some (Error ''Failed to process image'')"
    by (simp add: attempt_error_def failing_net_def run_attempt_def Let_def)
  show ?thesis
    using h exhaustion_failure [OF h, of "example_file ''a.png''"]
    by (simp add: e string_of_int_def)
qed

section \<open>Properties of the composition engine\<close>

text \<open>
  C7. For positive image and canvas dimensions the default transform has the scale
  \<open>min (canvasW / imgW) (canvasH / imgH) 1\<close>, which is never above 1, the position at the
  centre of the canvas and rotation 0. For a 4000 by 2000 image on an 800 by 600 canvas the
  scale is 0.2 and the position is (400, 300).
\<close>

theorem default_transform:
  assumes "0 < imgW" "0 < imgH" "0 < canvasW" "0 < canvasH"
  shows "scale (getDefaultTransform imgW imgH canvasW canvasH)
           = min (min (canvasW / imgW) (canvasH / imgH)) 1
   \<and> scale (getDefaultTransform imgW imgH canvasW canvasH) \<le> 1
   \<and> pos_x (getDefaultTransform imgW imgH canvasW canvasH) = canvasW / 2
   \<and> pos_y (getDefaultTransform imgW imgH canvasW canvasH) = canvasH / 2
   \<and> rotation (getDefaultTransform imgW imgH canvasW canvasH) = 0"
  by (simp add: getDefaultTransform_def Let_def)

theorem default_transform_witness:
  "(0::real) < 4000 \<and> (0::real) < 2000 \<and> (0::real) < 800 \<and> (0::real) < 600
   \<and> scale (getDefaultTransform 4000 2000 800 600) = 0.2
   \<and> pos_x (getDefaultTransform 4000 2000 800 600) = 400
   \<and> pos_y (getDefaultTransform 4000 2000 800 600) = 300
   \<and> rotation (getDefaultTransform 4000 2000 800 600) = 0"
  using default_transform [of 4000 2000 800 600] by simp

text \<open>
  C9. After \<^verbatim>\<open>composeImage\<close> the foreground is the only object on the canvas and its
  centre point is the centre of the canvas, whatever \<open>x\<close> and \<open>y\<close> the transform
  carries: the result does not depend on them. The scale and the rotation of the transform
  are those of the foreground.
\<close>

theorem compose_recenters_foreground:
  "objects (composeImage off c fg bg t) = [foreground_of (composeImage off c fg bg t)]
   \<and> getCenterPoint off (foreground_of (composeImage off c fg bg t))
       = (canvas_width c / 2, canvas_height c / 2)
   \<and> scaleX (foreground_of (composeImage off c fg bg t)) = scale t
   \<and> scaleY (foreground_of (composeImage off c fg bg t)) = scale t
   \<and> angle (foreground_of (composeImage off c fg bg t)) = rotation t
   \<and> composeImage off c fg bg (t\<lparr> pos_x := a, pos_y := b \<rparr>) = composeImage off c fg bg t"
  by (cases bg)
     (simp_all add: composeImage_def foreground_of_def getCenterPoint_def centerObject_def
        Canvas_add_def Canvas_clear_def new_FabricImage_def Let_def)

end
